theory Spec2Isabelle
  imports Main "HOL-Library.FSet"
begin

section \<open>Data model of Forwardbot.py\<close>

text \<open>
  The bot relays chat messages of a fixed list of channels to an HTTP endpoint.
  The embedding follows \<^verbatim>\<open>src/Forwardbot.py\<close>: the module globals
  \<^verbatim>\<open>http_session\<close> and \<^verbatim>\<open>RECENT_IDS\<close> are the state, the handlers take the
  state and return the new one, and everything a handler does to the outside (a line
  printed, a POST issued, a change of the ledger) is recorded in program order in a trace.

  Strings are lists of 8-bit characters. Python's unbounded integers are \<open>int\<close>.
\<close>

subsection \<open>JSON values\<close>

text \<open>
  The payload is a Python dict handed to \<^verbatim>\<open>session.post(json=...)\<close>. A dict is an
  association list in insertion order; \<^verbatim>\<open>None\<close> is \<open>JNull\<close>.
\<close>

datatype json =
    JNull
  | JStr string
  | JNum int
  | JArr "json list"
  | JObj "(string \<times> json) list"

subsection \<open>The objects of a message event\<close>

text \<open>
  Only the attributes the script reads are kept. \<open>user_str\<close> is \<^verbatim>\<open>str(user)\<close>.
  \<open>channel_name\<close> is \<^verbatim>\<open>getattr(channel, "name", None)\<close>: \<open>None\<close> when the channel
  has no such attribute. \<open>content\<close> is \<open>None\<close> when the text content is absent.
\<close>

record user =
  user_id :: int
  user_str :: string

record channel =
  channel_id :: int
  channel_name :: "string option"

record attachment =
  filename :: string
  url :: string
  content_type :: "string option"
  size_bytes :: int

record datetime =
  year :: nat
  month :: nat
  day :: nat
  hour :: nat
  minute :: nat
  second :: nat
  microsecond :: nat

text \<open>
  The embed objects belong to the chat library; their type is the parameter \<open>'e\<close>, and
  the library's \<^verbatim>\<open>to_dict\<close> is a parameter of the handler.
\<close>

record 'e message =
  message_id :: int
  author :: user
  channel :: channel
  content :: "string option"
  attachments :: "attachment list"
  embeds :: "'e list"
  created_at :: datetime

subsection \<open>Exceptions, the HTTP transport\<close>

text \<open>
  Both \<^verbatim>\<open>except\<close> clauses of the script catch the class \<^verbatim>\<open>Exception\<close>.
  \<open>Exception msg\<close> is an instance of that class (a network error, a timeout, a
  serialization failure) whose \<^verbatim>\<open>str\<close> is \<open>msg\<close>. \<open>BaseException msg\<close> is an
  exception outside that class; the event loop delivers one, the cancellation of the
  task, at a suspension point, and the script suspends only inside
  \<^verbatim>\<open>post_to_website\<close>.
\<close>

datatype exc =
    Exception string
  | BaseException string

record request =
  req_url :: string
  req_json :: json
  req_headers :: "(string \<times> string) list"
  req_timeout_total :: nat

text \<open>
  What the transport answers to \<^verbatim>\<open>session.post\<close>: an exception, or a response with
  a status code whose body \<^verbatim>\<open>await resp.text()\<close> reads, or fails to read.
\<close>

record response =
  resp_status :: int
  resp_text :: "exc + string"

type_synonym transport = "request \<Rightarrow> exc + response"

subsection \<open>State and effects\<close>

datatype client_session = ClientSession (closed: bool)

record state =
  http_session :: "client_session option"
  RECENT_IDS :: "int fset"

text \<open>One constructor for each \<^verbatim>\<open>print\<close> of the script, with the values it interpolates.\<close>

datatype printed =
    Logged_in string int
  | Forwarding_ON string
  | Forwarding_OFF
  | Posted int
  | Website_response string
  | Website_POST_error string
  | Forwarding_message int string "string option"
  | HTTP_session_closed

datatype effect =
    Print printed
  | HttpPost request
  | LedgerAdd int
  | LedgerClear

text \<open>
  The result of a handler: the state it leaves, its effects in program order, and the
  exception it raised to its caller, if any.
\<close>

record outcome =
  final :: state
  trace :: "effect list"
  raised :: "exc option"

text \<open>The environment of the process: the variable read at import, the bot's identity.\<close>

record config =
  getenv_INGEST_TOKEN :: "string option"
  client_user :: user

section \<open>Library functions the script calls\<close>

subsection \<open>\<^verbatim>\<open>str\<close> of an integer\<close>

definition digit :: "nat \<Rightarrow> char" where
  "digit n = ''0123456789'' ! (n mod 10)"

fun str_nat :: "nat \<Rightarrow> string" where
  "str_nat n = (if n < 10 then [digit n] else str_nat (n div 10) @ [digit n])"

definition str_int :: "int \<Rightarrow> string" where
  "str_int i = (if i < 0 then CHR ''-'' # str_nat (nat (- i)) else str_nat (nat i))"

subsection \<open>\<^verbatim>\<open>str.strip\<close>\<close>

text \<open>The characters below U+0100 for which \<^verbatim>\<open>str.isspace\<close> holds.\<close>

definition isspace :: "char \<Rightarrow> bool" where
  "isspace c = ((of_char c :: nat) \<in> {9, 10, 11, 12, 13, 28, 29, 30, 31, 32, 133, 160})"

definition strip :: "string \<Rightarrow> string" where
  "strip s = rev (dropWhile isspace (rev (dropWhile isspace s)))"

subsection \<open>\<^verbatim>\<open>datetime.isoformat\<close> in UTC\<close>

definition zfill :: "nat \<Rightarrow> string \<Rightarrow> string" where
  "zfill w s = replicate (w - length s) CHR ''0'' @ s"

text \<open>\<^verbatim>\<open>created_at.replace(tzinfo=timezone.utc).isoformat()\<close>\<close>

definition isoformat_utc :: "datetime \<Rightarrow> string" where
  "isoformat_utc d =
     zfill 4 (str_nat (year d)) @ ''-'' @ zfill 2 (str_nat (month d)) @ ''-'' @
     zfill 2 (str_nat (day d)) @ ''T'' @ zfill 2 (str_nat (hour d)) @ '':'' @
     zfill 2 (str_nat (minute d)) @ '':'' @ zfill 2 (str_nat (second d)) @
     (if microsecond d \<noteq> 0 then ''.'' @ zfill 6 (str_nat (microsecond d)) else '''') @
     ''+00:00''"

section \<open>Module constants\<close>

text \<open>\<^verbatim>\<open>INGEST_TOKEN = (os.getenv("INGEST_TOKEN") or "").strip()\<close>\<close>

definition INGEST_TOKEN :: "config \<Rightarrow> string" where
  "INGEST_TOKEN cfg =
     strip (case getenv_INGEST_TOKEN cfg of
              None \<Rightarrow> ''''
            | Some v \<Rightarrow> if v = '''' then '''' else v)"

definition API_URL :: string where
  "API_URL = ''https://dacapperclub.onrender.com/picks''"

definition SOURCE_CHANNEL_IDS :: "int list" where
  "SOURCE_CHANNEL_IDS = [
    1376084801974567033,
    1355683438455160892,
    1437566118511382548,
    1438456354531709009,
    1341495756019863572,
    1341495848973893725,
    1424866369635090472,
    1341495927994581074,
    1438379286779265154,
    1341495943815630908,
    1429291734550057032,
    1341496027374424114,
    1355684172844367872,
    1341498223336099840,
    1373974011049938954,
    1341499471812624465,
    1422712121145430137,
    1340466570303897613,
    1341493924187078810,
    1341495657546121256,
    1438456068471652364,
    1375638948331917432,
    1366617380947492905,
    1423891465305718814,
    1429292260750790769,
    1352867581694054520,
    1358600346162823225,
    1355683644164800714,
    1341495693164019752,
    1438379846693556255,
    1373750190061781002,
    1362542525482537131,
    1341495872684556340,
    1366617614863826975,
    1364334395355304026,
    1341495902707253351,
    1351112911715831829,
    1352867416576622663,
    1341495966695690394,
    1341495978317840384,
    1351109955574304849,
    1341496002569310218,
    1343588079348486244,
    1350407569960861696,
    1350408208522547200,
    1341498236770324590,
    1341498268969865246,
    1350408056147677264,
    1341495989466304624,
    1352382567298629764,
    1355684864396890132,
    1341500024713904302,
    1375270170330792108,
    1359371937775878264,
    1368323336257540148,
    1341497886638215178,
    1366528741592797224,
    1341498255258812540,
    1341499454376775831,
    1053085749865623562,
    1219395974355746846,
    1053085779422871613,
    1053085807382110310,
    1053085694836346880
  ]"

text \<open>The module starts with no session and an empty ledger.\<close>

definition initial :: state where
  "initial = \<lparr>http_session = None, RECENT_IDS = {||}\<rparr>"

section \<open>The handlers\<close>

subsection \<open>\<^verbatim>\<open>post_to_website\<close>\<close>

text \<open>
  The \<^verbatim>\<open>try\<close> block yields its effects and the exception that left it, if any; the
  \<^verbatim>\<open>except Exception\<close> clause then prints an exception of that class and lets any
  other one through. The call of \<^verbatim>\<open>session.post\<close> is recorded as \<open>HttpPost\<close>
  whatever the transport answers.
\<close>

definition post_to_website :: "config \<Rightarrow> transport \<Rightarrow> json \<Rightarrow> effect list \<times> exc option" where
  "post_to_website cfg session_post payload =
     (if API_URL = '''' then ([], None)
      else
        let headers = [(''Content-Type'', ''application/json'')];
            headers = (if INGEST_TOKEN cfg \<noteq> ''''
                       then headers @ [(''x-ingest-token'', INGEST_TOKEN cfg)]
                       else headers);
            req = \<lparr>req_url = API_URL, req_json = payload, req_headers = headers,
                   req_timeout_total = 10\<rparr>;
            (tr, r) =
              (case session_post req of
                 Inl e \<Rightarrow> ([HttpPost req], Some e)
               | Inr resp \<Rightarrow>
                   let tr = [HttpPost req, Print (Posted (resp_status resp))]
                   in if resp_status resp \<noteq> 200
                      then (case resp_text resp of
                              Inl e \<Rightarrow> (tr, Some e)
                            | Inr body \<Rightarrow> (tr @ [Print (Website_response body)], None))
                      else (tr, None))
        in case r of
             Some (Exception msg) \<Rightarrow> (tr @ [Print (Website_POST_error msg)], None)
           | _ \<Rightarrow> (tr, r))"

subsection \<open>\<^verbatim>\<open>on_ready\<close>\<close>

definition on_ready :: "config \<Rightarrow> state \<Rightarrow> outcome" where
  "on_ready cfg s =
     (let s = (case http_session s of
                 None \<Rightarrow> s\<lparr>http_session := Some (ClientSession False)\<rparr>
               | Some session \<Rightarrow>
                   if closed session then s\<lparr>http_session := Some (ClientSession False)\<rparr>
                   else s);
          tr = [Print (Logged_in (user_str (client_user cfg)) (user_id (client_user cfg)))];
          tr = tr @ (if API_URL \<noteq> '''' then [Print (Forwarding_ON API_URL)]
                     else [Print Forwarding_OFF])
      in \<lparr>final = s, trace = tr, raised = None\<rparr>)"

subsection \<open>\<^verbatim>\<open>on_message\<close>\<close>

text \<open>Lines 153 to 160: one object for each attachment.\<close>

definition attachment_object :: "attachment \<Rightarrow> json" where
  "attachment_object a =
     JObj [(''filename'', JStr (filename a)),
           (''url'', JStr (url a)),
           (''contentType'', (case content_type a of None \<Rightarrow> JNull | Some t \<Rightarrow> JStr t)),
           (''size'', JNum (size_bytes a))]"

text \<open>
  Lines 162 to 167: \<^verbatim>\<open>to_dict\<close> returns the dict of an embed, or \<open>None\<close> when it
  raises; the loop passes over an embed that raises.
\<close>

fun embeds_loop :: "('e \<Rightarrow> json option) \<Rightarrow> 'e list \<Rightarrow> json list" where
  "embeds_loop to_dict [] = []"
| "embeds_loop to_dict (e # es) =
     (case to_dict e of
        Some d \<Rightarrow> d # embeds_loop to_dict es
      | None \<Rightarrow> embeds_loop to_dict es)"

text \<open>Lines 153 to 178.\<close>

definition build_payload :: "('e \<Rightarrow> json option) \<Rightarrow> 'e message \<Rightarrow> json" where
  "build_payload to_dict message =
     JObj [(''channelId'', JStr (str_int (channel_id (channel message)))),
           (''channelName'', (case channel_name (channel message) of
                                None \<Rightarrow> JNull | Some n \<Rightarrow> JStr n)),
           (''authorId'', JStr (str_int (user_id (author message)))),
           (''authorName'', JStr (user_str (author message))),
           (''content'', JStr (case content message of
                                 None \<Rightarrow> ''''
                               | Some c \<Rightarrow> if c = '''' then '''' else c)),
           (''attachments'', JArr (map attachment_object (attachments message))),
           (''embeds'', JArr (embeds_loop to_dict (embeds message))),
           (''createdAt'', JStr (isoformat_utc (created_at message)))]"

definition on_message ::
  "config \<Rightarrow> ('e \<Rightarrow> json option) \<Rightarrow> transport \<Rightarrow> state \<Rightarrow> 'e message \<Rightarrow> outcome" where
  "on_message cfg to_dict session_post s message =
     (if user_id (author message) = user_id (client_user cfg)
      then \<lparr>final = s, trace = [], raised = None\<rparr>
      else if channel_id (channel message) \<notin> set SOURCE_CHANNEL_IDS
      then \<lparr>final = s, trace = [], raised = None\<rparr>
      else if message_id message |\<in>| RECENT_IDS s
      then \<lparr>final = s, trace = [], raised = None\<rparr>
      else
        let s = s\<lparr>RECENT_IDS := finsert (message_id message) (RECENT_IDS s)\<rparr>;
            tr = [LedgerAdd (message_id message)];
            (s, tr) = (if fcard (RECENT_IDS s) > 5000
                       then (s\<lparr>RECENT_IDS := {||}\<rparr>, tr @ [LedgerClear])
                       else (s, tr));
            payload = build_payload to_dict message;
            tr = tr @ [Print (Forwarding_message (channel_id (channel message))
                                (user_str (author message)) (content message))]
        in case http_session s of
             None \<Rightarrow> \<lparr>final = s, trace = tr, raised = None\<rparr>
           | Some session \<Rightarrow>
               if closed session then \<lparr>final = s, trace = tr, raised = None\<rparr>
               else
                 let (tr', r) = post_to_website cfg session_post payload
                 in \<lparr>final = s, trace = tr @ tr', raised = r\<rparr>)"

subsection \<open>The \<^verbatim>\<open>finally\<close> block of \<^verbatim>\<open>main\<close>\<close>

definition main_finally :: "state \<Rightarrow> outcome" where
  "main_finally s =
     (case http_session s of
        None \<Rightarrow> \<lparr>final = s, trace = [], raised = None\<rparr>
      | Some session \<Rightarrow>
          if \<not> closed session
          then \<lparr>final = s\<lparr>http_session := Some (ClientSession True)\<rparr>,
                trace = [Print HTTP_session_closed], raised = None\<rparr>
          else \<lparr>final = s, trace = [], raised = None\<rparr>)"

subsection \<open>Runs of the process\<close>

text \<open>
  The gateway client calls the handlers one event after another. A message event comes
  with what the transport answers if the handler posts. The ledger is read and written
  before the handler's only suspension point, so the ledger a handler sees is the one
  left by the handlers started before it.
\<close>

datatype 'e event =
    Ready
  | Message "'e message" transport
  | Finally

fun step :: "config \<Rightarrow> ('e \<Rightarrow> json option) \<Rightarrow> state \<Rightarrow> 'e event \<Rightarrow> outcome" where
  "step cfg to_dict s Ready = on_ready cfg s"
| "step cfg to_dict s (Message m session_post) = on_message cfg to_dict session_post s m"
| "step cfg to_dict s Finally = main_finally s"

fun run :: "config \<Rightarrow> ('e \<Rightarrow> json option) \<Rightarrow> state \<Rightarrow> 'e event list \<Rightarrow> outcome" where
  "run cfg to_dict s [] = \<lparr>final = s, trace = [], raised = None\<rparr>"
| "run cfg to_dict s (ev # evs) =
     (let r = step cfg to_dict s ev;
          r' = run cfg to_dict (final r) evs
      in \<lparr>final = final r', trace = trace r @ trace r',
          raised = (case raised r of None \<Rightarrow> raised r' | Some e \<Rightarrow> Some e)\<rparr>)"

section \<open>The handlers when a line cannot be printed\<close>

text \<open>
  The handlers above take the console for granted: every \<^verbatim>\<open>print\<close> writes its line.
  A \<^verbatim>\<open>print\<close> can raise (a closed pipe, a line the console cannot encode). The
  console is a parameter here: \<open>None\<close> when the line is written, the exception
  otherwise; a line that is not written is not in the trace. The \<^verbatim>\<open>print\<close> calls
  of lines 107 and 111 are inside the \<^verbatim>\<open>try\<close> block, the one of line 114 is inside
  the \<^verbatim>\<open>except\<close> clause, and the one of line 180 is outside every \<^verbatim>\<open>try\<close>.
  With a console that writes every line these handlers are the ones above.
\<close>

type_synonym console = "printed \<Rightarrow> exc option"

definition post_to_website_io ::
  "console \<Rightarrow> config \<Rightarrow> transport \<Rightarrow> json \<Rightarrow> effect list \<times> exc option" where
  "post_to_website_io console cfg session_post payload =
     (if API_URL = '''' then ([], None)
      else
        let headers = [(''Content-Type'', ''application/json'')];
            headers = (if INGEST_TOKEN cfg \<noteq> ''''
                       then headers @ [(''x-ingest-token'', INGEST_TOKEN cfg)]
                       else headers);
            req = \<lparr>req_url = API_URL, req_json = payload, req_headers = headers,
                   req_timeout_total = 10\<rparr>;
            (tr, r) =
              (case session_post req of
                 Inl e \<Rightarrow> ([HttpPost req], Some e)
               | Inr resp \<Rightarrow>
                   (case console (Posted (resp_status resp)) of
                      Some e \<Rightarrow> ([HttpPost req], Some e)
                    | None \<Rightarrow>
                        let tr = [HttpPost req, Print (Posted (resp_status resp))]
                        in if resp_status resp \<noteq> 200
                           then (case resp_text resp of
                                   Inl e \<Rightarrow> (tr, Some e)
                                 | Inr body \<Rightarrow>
                                     (case console (Website_response body) of
                                        Some e \<Rightarrow> (tr, Some e)
                                      | None \<Rightarrow> (tr @ [Print (Website_response body)], None)))
                           else (tr, None)))
        in case r of
             Some (Exception msg) \<Rightarrow>
               (case console (Website_POST_error msg) of
                  None \<Rightarrow> (tr @ [Print (Website_POST_error msg)], None)
                | Some e \<Rightarrow> (tr, Some e))
           | _ \<Rightarrow> (tr, r))"

definition on_message_io ::
  "console \<Rightarrow> config \<Rightarrow> ('e \<Rightarrow> json option) \<Rightarrow> transport \<Rightarrow> state \<Rightarrow> 'e message \<Rightarrow> outcome" where
  "on_message_io console cfg to_dict session_post s message =
     (if user_id (author message) = user_id (client_user cfg)
      then \<lparr>final = s, trace = [], raised = None\<rparr>
      else if channel_id (channel message) \<notin> set SOURCE_CHANNEL_IDS
      then \<lparr>final = s, trace = [], raised = None\<rparr>
      else if message_id message |\<in>| RECENT_IDS s
      then \<lparr>final = s, trace = [], raised = None\<rparr>
      else
        let s = s\<lparr>RECENT_IDS := finsert (message_id message) (RECENT_IDS s)\<rparr>;
            tr = [LedgerAdd (message_id message)];
            (s, tr) = (if fcard (RECENT_IDS s) > 5000
                       then (s\<lparr>RECENT_IDS := {||}\<rparr>, tr @ [LedgerClear])
                       else (s, tr));
            payload = build_payload to_dict message;
            line = Forwarding_message (channel_id (channel message))
                     (user_str (author message)) (content message)
        in case console line of
             Some e \<Rightarrow> \<lparr>final = s, trace = tr, raised = Some e\<rparr>
           | None \<Rightarrow>
               let tr = tr @ [Print line]
               in case http_session s of
                    None \<Rightarrow> \<lparr>final = s, trace = tr, raised = None\<rparr>
                  | Some session \<Rightarrow>
                      if closed session then \<lparr>final = s, trace = tr, raised = None\<rparr>
                      else
                        let (tr', r) = post_to_website_io console cfg session_post payload
                        in \<lparr>final = s, trace = tr @ tr', raised = r\<rparr>)"

section \<open>Observing runs\<close>

text \<open>The requests posted in a trace, in order.\<close>

fun posts :: "effect list \<Rightarrow> request list" where
  "posts [] = []"
| "posts (HttpPost req # tr) = req # posts tr"
| "posts (_ # tr) = posts tr"

text \<open>Reading a key of a dict.\<close>

definition field :: "json \<Rightarrow> string \<Rightarrow> json option" where
  "field j k = (case j of JObj kvs \<Rightarrow> map_of kvs k | _ \<Rightarrow> None)"

text \<open>
  The request \<^verbatim>\<open>post_to_website\<close> hands to \<^verbatim>\<open>session.post\<close>: the URL, the
  payload, the headers of lines 96 to 98 and the timeout of line 105.
\<close>

definition the_request :: "config \<Rightarrow> json \<Rightarrow> request" where
  "the_request cfg payload =
     \<lparr>req_url = API_URL, req_json = payload,
      req_headers = (''Content-Type'', ''application/json'') #
        (if INGEST_TOKEN cfg \<noteq> '''' then [(''x-ingest-token'', INGEST_TOKEN cfg)] else []),
      req_timeout_total = 10\<rparr>"

text \<open>The test of line 183: a session exists and is not closed.\<close>

definition sending :: "state \<Rightarrow> bool" where
  "sending s = (case http_session s of None \<Rightarrow> False | Some session \<Rightarrow> \<not> closed session)"



section \<open>Concrete inputs\<close>

text \<open>
  A configuration with a secret padded by blanks, a message of a monitored channel with two
  attachments and three embeds of which the second fails to serialize, and variants of it.
\<close>

definition example_cfg :: config where
  "example_cfg = \<lparr>getenv_INGEST_TOKEN = Some '' s3cret '',
                  client_user = \<lparr>user_id = 7, user_str = ''bot''\<rparr>\<rparr>"

definition example_to_dict :: "nat \<Rightarrow> json option" where
  "example_to_dict n = (if n = 1 then None else Some (JObj [(''title'', JNum (int n))]))"

definition example_message :: "nat message" where
  "example_message =
     \<lparr>message_id = 2,
      author = \<lparr>user_id = 8, user_str = ''alice''\<rparr>,
      channel = \<lparr>channel_id = 1376084801974567033, channel_name = Some ''picks''\<rparr>,
      content = Some ''pick: Lakers -4'',
      attachments = [\<lparr>filename = ''a.png'', url = ''https://cdn/a.png'',
                       content_type = Some ''image/png'', size_bytes = 3\<rparr>,
                     \<lparr>filename = ''b.bin'', url = ''https://cdn/b.bin'',
                       content_type = None, size_bytes = 40\<rparr>],
      embeds = [0, 1, 2],
      created_at = \<lparr>year = 2024, month = 1, day = 1, hour = 0, minute = 0, second = 0,
                    microsecond = 0\<rparr>\<rparr>"

definition self_message :: "nat message" where
  "self_message = example_message\<lparr>message_id := 1, author := \<lparr>user_id = 7, user_str = ''bot''\<rparr>\<rparr>"

definition outside_message :: "nat message" where
  "outside_message = example_message\<lparr>channel := \<lparr>channel_id = 1, channel_name = None\<rparr>\<rparr>"

definition ready_state :: state where
  "ready_state = \<lparr>http_session = Some (ClientSession False), RECENT_IDS = {||}\<rparr>"

definition closed_state :: state where
  "closed_state = \<lparr>http_session = Some (ClientSession True), RECENT_IDS = {||}\<rparr>"

definition full_state :: state where
  "full_state = \<lparr>http_session = None, RECENT_IDS = fset_of_list [1..5000]\<rparr>"

definition answer_200 :: transport where
  "answer_200 req = Inr \<lparr>resp_status = 200, resp_text = Inr ''ok''\<rparr>"

definition answer_500 :: transport where
  "answer_500 req = Inr \<lparr>resp_status = 500, resp_text = Inr ''server error''\<rparr>"



definition overflow_message :: "nat message" where
  "overflow_message = example_message\<lparr>message_id := 5001\<rparr>"

definition absent_content_message :: "nat message" where
  "absent_content_message = example_message\<lparr>message_id := 3, content := None\<rparr>"

definition blank_cfg :: config where
  "blank_cfg = \<lparr>getenv_INGEST_TOKEN = Some ''  '',
                client_user = \<lparr>user_id = 7, user_str = ''bot''\<rparr>\<rparr>"





section \<open>Properties of the handlers\<close>

subsection \<open>What \<^verbatim>\<open>post_to_website\<close> does\<close>

text \<open>
  The call issues exactly one POST, whatever the transport answers; the rest of its trace
  and the exception it lets through are read off the answer.
\<close>

lemma posts_append [simp]: "posts (xs @ ys) = posts xs @ posts ys"
  by (induction xs rule: posts.induct) simp_all

lemma API_URL_nonempty [simp]: "API_URL \<noteq> ''''"
  by (simp add: API_URL_def)

lemma post_to_website_trace:
  "fst (post_to_website cfg session_post payload) =
     HttpPost (the_request cfg payload) #
     (case session_post (the_request cfg payload) of
        Inl (Exception msg) \<Rightarrow> [Print (Website_POST_error msg)]
      | Inl (BaseException msg) \<Rightarrow> []
      | Inr resp \<Rightarrow>
          Print (Posted (resp_status resp)) #
          (if resp_status resp \<noteq> 200
           then (case resp_text resp of
                   Inr body \<Rightarrow> [Print (Website_response body)]
                 | Inl (Exception msg) \<Rightarrow> [Print (Website_POST_error msg)]
                 | Inl (BaseException msg) \<Rightarrow> [])
           else []))"
  by (simp add: post_to_website_def the_request_def Let_def split: sum.splits exc.splits)


lemma posts_post_to_website:
  "posts (fst (post_to_website cfg session_post payload)) = [the_request cfg payload]"
  by (simp add: post_to_website_trace split: sum.splits exc.splits)

lemma ledger_post_to_website:
  "LedgerAdd X \<notin> set (fst (post_to_website cfg session_post payload))"
  "LedgerClear \<notin> set (fst (post_to_website cfg session_post payload))"
  by (simp_all add: post_to_website_trace split: sum.splits exc.splits)

subsection \<open>The two ways through \<^verbatim>\<open>on_message\<close>\<close>

text \<open>
  Either one of the three early returns is taken and nothing happens, or the message is
  recorded in the ledger and forwarded.
\<close>

lemma on_message_skip:
  "user_id (author m) = user_id (client_user cfg) \<or>
   channel_id (channel m) \<notin> set SOURCE_CHANNEL_IDS \<or>
   message_id m |\<in>| RECENT_IDS s \<Longrightarrow>
   on_message cfg to_dict session_post s m = \<lparr>final = s, trace = [], raised = None\<rparr>"
  by (auto simp add: on_message_def)

lemma on_message_forward:
  assumes "user_id (author m) \<noteq> user_id (client_user cfg)"
    and "channel_id (channel m) \<in> set SOURCE_CHANNEL_IDS"
    and "message_id m |\<notin>| RECENT_IDS s"
  shows "final (on_message cfg to_dict session_post s m) =
           s\<lparr>RECENT_IDS := (if fcard (finsert (message_id m) (RECENT_IDS s)) > 5000 then {||}
                            else finsert (message_id m) (RECENT_IDS s))\<rparr>"
    and "trace (on_message cfg to_dict session_post s m) =
           LedgerAdd (message_id m) #
           (if fcard (finsert (message_id m) (RECENT_IDS s)) > 5000 then [LedgerClear] else []) @
           Print (Forwarding_message (channel_id (channel m)) (user_str (author m)) (content m)) #
           (if sending s then fst (post_to_website cfg session_post (build_payload to_dict m)) else [])"
    and "raised (on_message cfg to_dict session_post s m) =
           (if sending s then snd (post_to_website cfg session_post (build_payload to_dict m)) else None)"
  using assms
  by (simp_all add: on_message_def sending_def Let_def split: option.splits prod.splits)

subsection \<open>The ledger along a run\<close>

text \<open>
  Only \<^verbatim>\<open>on_message\<close> touches the ledger. As long as it is not cleared the ledger
  grows, and it never holds more than 5000 identifiers.
\<close>

lemma on_ready_ledger:
  "RECENT_IDS (final (on_ready cfg s)) = RECENT_IDS s"
  "posts (trace (on_ready cfg s)) = []"
  "LedgerAdd X \<notin> set (trace (on_ready cfg s))"
  "LedgerClear \<notin> set (trace (on_ready cfg s))"
  by (simp_all add: on_ready_def Let_def split: option.splits)

lemma main_finally_ledger:
  "RECENT_IDS (final (main_finally s)) = RECENT_IDS s"
  "posts (trace (main_finally s)) = []"
  "LedgerAdd X \<notin> set (trace (main_finally s))"
  "LedgerClear \<notin> set (trace (main_finally s))"
  by (simp_all add: main_finally_def split: option.splits)

lemma on_message_cases:
  obtains (skip) "on_message cfg to_dict session_post s m = \<lparr>final = s, trace = [], raised = None\<rparr>"
  | (forward) "user_id (author m) \<noteq> user_id (client_user cfg)"
      "channel_id (channel m) \<in> set SOURCE_CHANNEL_IDS"
      "message_id m |\<notin>| RECENT_IDS s"
  using on_message_skip by blast

lemma on_message_keeps:
  assumes "LedgerClear \<notin> set (trace (on_message cfg to_dict session_post s m))"
  shows "RECENT_IDS s |\<subseteq>| RECENT_IDS (final (on_message cfg to_dict session_post s m))"
    and "LedgerAdd X \<in> set (trace (on_message cfg to_dict session_post s m)) \<Longrightarrow>
         X |\<in>| RECENT_IDS (final (on_message cfg to_dict session_post s m))"
proof -
  show "RECENT_IDS s |\<subseteq>| RECENT_IDS (final (on_message cfg to_dict session_post s m))"
  proof (cases rule: on_message_cases [of cfg to_dict session_post s m])
    case skip
    then show ?thesis by simp
  next
    case forward
    with assms show ?thesis
      by (auto simp add: on_message_forward split: if_splits)
  qed
  show "X |\<in>| RECENT_IDS (final (on_message cfg to_dict session_post s m))"
    if "LedgerAdd X \<in> set (trace (on_message cfg to_dict session_post s m))"
  proof (cases rule: on_message_cases [of cfg to_dict session_post s m])
    case skip
    with that show ?thesis by simp
  next
    case forward
    with assms that show ?thesis
      by (auto simp add: on_message_forward ledger_post_to_website split: if_splits)
  qed
qed

lemma step_keeps:
  assumes "LedgerClear \<notin> set (trace (step cfg to_dict s ev))"
  shows "RECENT_IDS s |\<subseteq>| RECENT_IDS (final (step cfg to_dict s ev))"
    and "LedgerAdd X \<in> set (trace (step cfg to_dict s ev)) \<Longrightarrow>
         X |\<in>| RECENT_IDS (final (step cfg to_dict s ev))"
  using assms
  by (cases ev; simp add: on_message_keeps on_ready_ledger main_finally_ledger)+

lemma run_keeps:
  "LedgerClear \<notin> set (trace (run cfg to_dict s evs)) \<Longrightarrow>
   RECENT_IDS s |\<subseteq>| RECENT_IDS (final (run cfg to_dict s evs)) \<and>
   (LedgerAdd X \<in> set (trace (run cfg to_dict s evs)) \<longrightarrow>
    X |\<in>| RECENT_IDS (final (run cfg to_dict s evs)))"
proof (induction evs arbitrary: s)
  case Nil
  then show ?case by simp
next
  case (Cons ev evs)
  let ?r = "step cfg to_dict s ev"
  from Cons.prems have a: "LedgerClear \<notin> set (trace ?r)"
    and b: "LedgerClear \<notin> set (trace (run cfg to_dict (final ?r) evs))"
    by (simp_all add: Let_def)
  from Cons.IH [OF b] step_keeps [OF a] show ?case
    by (auto simp add: Let_def)
qed

lemma on_message_bound:
  "fcard (RECENT_IDS s) \<le> 5000 \<Longrightarrow>
   fcard (RECENT_IDS (final (on_message cfg to_dict session_post s m))) \<le> 5000"
  by (cases rule: on_message_cases [of cfg to_dict session_post s m])
     (simp_all add: on_message_forward fcard_fempty)

lemma step_bound:
  "fcard (RECENT_IDS s) \<le> 5000 \<Longrightarrow> fcard (RECENT_IDS (final (step cfg to_dict s ev))) \<le> 5000"
  by (cases ev) (simp_all add: on_message_bound on_ready_ledger main_finally_ledger)

lemma run_bound:
  "fcard (RECENT_IDS s) \<le> 5000 \<Longrightarrow> fcard (RECENT_IDS (final (run cfg to_dict s evs))) \<le> 5000"
  by (induction evs arbitrary: s) (simp_all add: Let_def step_bound)

subsection \<open>The requests of a run\<close>

lemma posts_on_message:
  "posts (trace (on_message cfg to_dict session_post s m)) = [] \<or>
   posts (trace (on_message cfg to_dict session_post s m)) = [the_request cfg (build_payload to_dict m)]"
  by (cases rule: on_message_cases [of cfg to_dict session_post s m])
     (simp_all add: on_message_forward posts_post_to_website)

lemma posts_step:
  "\<exists>m session_post. ev = Message m session_post \<and> req = the_request cfg (build_payload to_dict m)"
  if "req \<in> set (posts (trace (step cfg to_dict s ev)))"
proof (cases ev)
  case (Message m session_post)
  with posts_on_message [of cfg to_dict session_post s m] that show ?thesis
    by auto
qed (use that in \<open>simp_all add: on_ready_ledger main_finally_ledger\<close>)

lemma posts_run:
  "req \<in> set (posts (trace (run cfg to_dict s evs))) \<Longrightarrow>
   \<exists>m session_post. Message m session_post \<in> set evs \<and> req = the_request cfg (build_payload to_dict m)"
proof (induction evs arbitrary: s)
  case Nil
  then show ?case by simp
next
  case (Cons ev evs)
  from Cons.prems consider
      "req \<in> set (posts (trace (step cfg to_dict s ev)))"
    | "req \<in> set (posts (trace (run cfg to_dict (final (step cfg to_dict s ev)) evs)))"
    by (auto simp add: Let_def)
  then show ?case
  proof cases
    case 1
    from posts_step [OF 1] show ?thesis by auto
  next
    case 2
    from Cons.IH [OF 2] show ?thesis by auto
  qed
qed

subsection \<open>Library functions\<close>

lemma dropWhile_all: "(\<forall>c\<in>set (dropWhile P xs). P c) \<longleftrightarrow> (\<forall>c\<in>set xs. P c)"
  by (induction xs) auto

lemma strip_empty_iff: "strip s = '''' \<longleftrightarrow> (\<forall>c\<in>set s. isspace c)"
  by (simp add: strip_def dropWhile_eq_Nil_conv dropWhile_all)

lemma embeds_loop_filter:
  "embeds_loop to_dict es = map (\<lambda>e. the (to_dict e)) (filter (\<lambda>e. to_dict e \<noteq> None) es)"
  by (induction es) (auto split: option.splits)

subsection \<open>Facts about the concrete inputs\<close>

lemma example_forwards:
  "user_id (author example_message) \<noteq> user_id (client_user example_cfg)"
  "channel_id (channel example_message) \<in> set SOURCE_CHANNEL_IDS"
  by (simp_all add: example_message_def example_cfg_def SOURCE_CHANNEL_IDS_def)

lemma example_ledgers:
  "message_id example_message |\<notin>| RECENT_IDS ready_state"
  "message_id example_message |\<notin>| RECENT_IDS closed_state"
  "message_id example_message |\<notin>| RECENT_IDS initial"
  "fcard (finsert (message_id example_message) {||}) = 1"
  "sending ready_state" "\<not> sending closed_state" "\<not> sending initial"
  by (simp_all add: example_message_def ready_state_def closed_state_def initial_def
      fcard_finsert_if fcard_fempty sending_def)

lemma full_state_card:
  "fcard (RECENT_IDS full_state) = 5000"
  "5001 |\<notin>| RECENT_IDS full_state"
  "fcard (finsert 5001 (RECENT_IDS full_state)) = 5001"
  by (simp_all add: full_state_def fcard.rep_eq fset_of_list.rep_eq fset_of_list_elem)

subsection \<open>At most one POST for an identifier\<close>



subsection \<open>The payload\<close>

lemma json_on_message:
  "req \<in> set (posts (trace (on_message cfg to_dict session_post s m))) \<Longrightarrow>
   req = the_request cfg (build_payload to_dict m)"
  using posts_on_message [of cfg to_dict session_post s m] by auto

lemma field_build_payload:
  "field (build_payload to_dict m) ''content'' =
     Some (JStr (case content m of None \<Rightarrow> '''' | Some c \<Rightarrow> c))"
  "field (build_payload to_dict m) ''attachments'' =
     Some (JArr (map attachment_object (attachments m)))"
  "field (build_payload to_dict m) ''embeds'' = Some (JArr (embeds_loop to_dict (embeds m)))"
  by (simp_all add: field_def build_payload_def split: option.splits)

subsection \<open>More facts about the concrete inputs\<close>

lemma example_posts:
  "posts (trace (on_message example_cfg example_to_dict session_post ready_state example_message)) =
     [the_request example_cfg (build_payload example_to_dict example_message)]"
  using example_forwards example_ledgers
  by (simp add: on_message_forward posts_post_to_website)

lemma strip_secret:
  "strip '' s3cret '' = ''s3cret''" "strip ''  '' = ''''"
  by (simp_all add: strip_def isspace_def)

lemma INGEST_TOKEN_strip:
  "INGEST_TOKEN cfg = strip (case getenv_INGEST_TOKEN cfg of None \<Rightarrow> '''' | Some v \<Rightarrow> v)"
  by (simp add: INGEST_TOKEN_def split: option.splits)

lemma example_tokens:
  "INGEST_TOKEN example_cfg = ''s3cret''" "INGEST_TOKEN blank_cfg = ''''"
  by (simp_all add: INGEST_TOKEN_def example_cfg_def blank_cfg_def strip_secret)

subsection \<open>The handlers with a console\<close>

text \<open>
  With a console that writes every line, the handlers with a console agree with the
  handlers of the first part.
\<close>

lemma post_to_website_io_unfold:
  "post_to_website_io console cfg session_post payload =
     (case (case session_post (the_request cfg payload) of
              Inl e \<Rightarrow> ([HttpPost (the_request cfg payload)], Some e)
            | Inr resp \<Rightarrow>
                (case console (Posted (resp_status resp)) of
                   Some e \<Rightarrow> ([HttpPost (the_request cfg payload)], Some e)
                 | None \<Rightarrow>
                     if resp_status resp \<noteq> 200
                     then (case resp_text resp of
                             Inl e \<Rightarrow>
                               ([HttpPost (the_request cfg payload),
                                 Print (Posted (resp_status resp))], Some e)
                           | Inr body \<Rightarrow>
                               (case console (Website_response body) of
                                  Some e \<Rightarrow>
                                    ([HttpPost (the_request cfg payload),
                                      Print (Posted (resp_status resp))], Some e)
                                | None \<Rightarrow>
                                    ([HttpPost (the_request cfg payload),
                                      Print (Posted (resp_status resp)),
                                      Print (Website_response body)], None)))
                     else ([HttpPost (the_request cfg payload),
                            Print (Posted (resp_status resp))], None))) of
        (tr, r) \<Rightarrow>
          (case r of
             Some (Exception msg) \<Rightarrow>
               (case console (Website_POST_error msg) of
                  None \<Rightarrow> (tr @ [Print (Website_POST_error msg)], None)
                | Some e \<Rightarrow> (tr, Some e))
           | _ \<Rightarrow> (tr, r)))"
proof (cases "INGEST_TOKEN cfg = ''''")
  case True
  then show ?thesis
    by (simp add: post_to_website_io_def the_request_def Let_def split: sum.splits option.splits)
next
  case False
  then show ?thesis
    by (simp add: post_to_website_io_def the_request_def Let_def split: sum.splits option.splits)
qed

lemma post_to_website_unfold:
  "post_to_website cfg session_post payload =
     (case (case session_post (the_request cfg payload) of
              Inl e \<Rightarrow> ([HttpPost (the_request cfg payload)], Some e)
            | Inr resp \<Rightarrow>
                if resp_status resp \<noteq> 200
                then (case resp_text resp of
                        Inl e \<Rightarrow>
                          ([HttpPost (the_request cfg payload),
                            Print (Posted (resp_status resp))], Some e)
                      | Inr body \<Rightarrow>
                          ([HttpPost (the_request cfg payload),
                            Print (Posted (resp_status resp)),
                            Print (Website_response body)], None))
                else ([HttpPost (the_request cfg payload),
                       Print (Posted (resp_status resp))], None)) of
        (tr, r) \<Rightarrow>
          (case r of
             Some (Exception msg) \<Rightarrow> (tr @ [Print (Website_POST_error msg)], None)
           | _ \<Rightarrow> (tr, r)))"
proof (cases "INGEST_TOKEN cfg = ''''")
  case True
  then show ?thesis
    by (simp add: post_to_website_def the_request_def Let_def split: sum.splits)
next
  case False
  then show ?thesis
    by (simp add: post_to_website_def the_request_def Let_def split: sum.splits)
qed

lemma post_to_website_io_ok:
  "(\<forall>line. console line = None) \<Longrightarrow>
   post_to_website_io console cfg session_post payload = post_to_website cfg session_post payload"
  by (simp add: post_to_website_io_unfold post_to_website_unfold split: sum.splits exc.splits)

lemma on_message_io_ok:
  "(\<forall>line. console line = None) \<Longrightarrow>
   on_message_io console cfg to_dict session_post s m = on_message cfg to_dict session_post s m"
  by (simp add: on_message_io_def on_message_def Let_def post_to_website_io_ok
      split: option.splits)

lemma post_to_website_io_posts:
  "posts (fst (post_to_website_io console cfg session_post payload)) = [the_request cfg payload]"
  by (simp add: post_to_website_io_unfold split: sum.splits option.splits exc.splits)






subsection \<open>The message that overflows the ledger\<close>



section \<open>The claims\<close>

subsection \<open>C1: an identifier already in the ledger\<close>

text \<open>
  Claim C1. For every message event whose identifier is already in the dedup ledger when
  the handler runs, the handler returns at once, issues no POST and does not modify the
  ledger. Hence, when the identifier was added in a run of events during which the ledger
  was never cleared, a further event with that identifier causes no HTTP call.
\<close>

theorem C1_duplicate_suppressed:
  "(message_id m |\<in>| RECENT_IDS s \<longrightarrow>
      on_message cfg to_dict session_post s m = \<lparr>final = s, trace = [], raised = None\<rparr> \<and>
      posts (trace (on_message cfg to_dict session_post s m)) = [] \<and>
      RECENT_IDS (final (on_message cfg to_dict session_post s m)) = RECENT_IDS s) \<and>
   (LedgerAdd (message_id m) \<in> set (trace (run cfg to_dict s evs)) \<and>
    LedgerClear \<notin> set (trace (run cfg to_dict s evs)) \<longrightarrow>
      posts (trace (on_message cfg to_dict session_post (final (run cfg to_dict s evs)) m)) = [] \<and>
      final (on_message cfg to_dict session_post (final (run cfg to_dict s evs)) m) =
        final (run cfg to_dict s evs))"
proof (intro conjI impI)
  assume "message_id m |\<in>| RECENT_IDS s"
  then show "on_message cfg to_dict session_post s m = \<lparr>final = s, trace = [], raised = None\<rparr>"
    by (simp add: on_message_skip)
  then show "posts (trace (on_message cfg to_dict session_post s m)) = []"
    and "RECENT_IDS (final (on_message cfg to_dict session_post s m)) = RECENT_IDS s"
    by simp_all
next
  assume "LedgerAdd (message_id m) \<in> set (trace (run cfg to_dict s evs)) \<and>
    LedgerClear \<notin> set (trace (run cfg to_dict s evs))"
  then have "message_id m |\<in>| RECENT_IDS (final (run cfg to_dict s evs))"
    using run_keeps [of cfg to_dict s evs "message_id m"] by simp
  then have "on_message cfg to_dict session_post (final (run cfg to_dict s evs)) m =
      \<lparr>final = final (run cfg to_dict s evs), trace = [], raised = None\<rparr>"
    by (simp add: on_message_skip)
  then show "posts (trace (on_message cfg to_dict session_post (final (run cfg to_dict s evs)) m)) = []"
    and "final (on_message cfg to_dict session_post (final (run cfg to_dict s evs)) m) =
        final (run cfg to_dict s evs)"
    by simp_all
qed

text \<open>The example message handled once, the server answering 500.\<close>

lemma example_run:
  "trace (run example_cfg example_to_dict ready_state [Message example_message answer_500]) =
     [LedgerAdd 2,
      Print (Forwarding_message 1376084801974567033 ''alice'' (Some ''pick: Lakers -4'')),
      HttpPost (the_request example_cfg (build_payload example_to_dict example_message)),
      Print (Posted 500), Print (Website_response ''server error'')]"
  "RECENT_IDS (final (run example_cfg example_to_dict ready_state [Message example_message answer_500]))
     = {|2|}"
  using example_forwards example_ledgers
  by (simp_all add: Let_def on_message_forward post_to_website_trace)
     (simp_all add: example_message_def answer_500_def ready_state_def)

theorem C1_witness:
  "message_id example_message |\<in>|
     RECENT_IDS (final (run example_cfg example_to_dict ready_state [Message example_message answer_500])) \<and>
   LedgerAdd (message_id example_message) \<in>
     set (trace (run example_cfg example_to_dict ready_state [Message example_message answer_500])) \<and>
   LedgerClear \<notin>
     set (trace (run example_cfg example_to_dict ready_state [Message example_message answer_500])) \<and>
   posts (trace (on_message example_cfg example_to_dict answer_200
     (final (run example_cfg example_to_dict ready_state [Message example_message answer_500]))
     example_message)) = []"
proof -
  have "message_id example_message = 2"
    by (simp add: example_message_def)
  with example_run
    C1_duplicate_suppressed [of example_message
      "final (run example_cfg example_to_dict ready_state [Message example_message answer_500])"
      example_cfg example_to_dict answer_200 "[]"]
    C1_duplicate_suppressed [of example_message ready_state
      example_cfg example_to_dict answer_200 "[Message example_message answer_500]"]
  show ?thesis by simp
qed

subsection \<open>C2: the ledger holds at most 5000 identifiers\<close>

text \<open>
  Claim C2. After every completed run of the message handler the dedup ledger holds at most
  5000 identifiers: in every run of events from the initial state, and after each single
  handler started with at most 5000. Whenever an insert makes the size exceed 5000, the
  ledger is cleared entirely right after that insert, the identifier just inserted
  included.
\<close>

theorem C2_ledger_bounded:
  "fcard (RECENT_IDS (final (run cfg to_dict initial evs))) \<le> 5000 \<and>
   (fcard (RECENT_IDS s) \<le> 5000 \<longrightarrow>
      fcard (RECENT_IDS (final (on_message cfg to_dict session_post s m))) \<le> 5000) \<and>
   (user_id (author m) \<noteq> user_id (client_user cfg) \<and>
    channel_id (channel m) \<in> set SOURCE_CHANNEL_IDS \<and>
    message_id m |\<notin>| RECENT_IDS s \<and>
    fcard (finsert (message_id m) (RECENT_IDS s)) > 5000 \<longrightarrow>
      RECENT_IDS (final (on_message cfg to_dict session_post s m)) = {||} \<and>
      take 2 (trace (on_message cfg to_dict session_post s m)) =
        [LedgerAdd (message_id m), LedgerClear])"
proof (intro conjI impI)
  have "fcard (RECENT_IDS initial) \<le> 5000"
    by (simp add: initial_def fcard_fempty)
  then show "fcard (RECENT_IDS (final (run cfg to_dict initial evs))) \<le> 5000"
    by (rule run_bound)
next
  assume "fcard (RECENT_IDS s) \<le> 5000"
  then show "fcard (RECENT_IDS (final (on_message cfg to_dict session_post s m))) \<le> 5000"
    by (rule on_message_bound)
next
  assume a: "user_id (author m) \<noteq> user_id (client_user cfg) \<and>
    channel_id (channel m) \<in> set SOURCE_CHANNEL_IDS \<and>
    message_id m |\<notin>| RECENT_IDS s \<and>
    fcard (finsert (message_id m) (RECENT_IDS s)) > 5000"
  then show "RECENT_IDS (final (on_message cfg to_dict session_post s m)) = {||}"
    by (simp add: on_message_forward)
  from a show "take 2 (trace (on_message cfg to_dict session_post s m)) =
      [LedgerAdd (message_id m), LedgerClear]"
    by (simp add: on_message_forward)
qed

theorem C2_witness:
  "fcard (RECENT_IDS full_state) \<le> 5000 \<and>
   user_id (author overflow_message) \<noteq> user_id (client_user example_cfg) \<and>
   channel_id (channel overflow_message) \<in> set SOURCE_CHANNEL_IDS \<and>
   message_id overflow_message |\<notin>| RECENT_IDS full_state \<and>
   fcard (finsert (message_id overflow_message) (RECENT_IDS full_state)) > 5000 \<and>
   fcard (RECENT_IDS (final (on_message example_cfg example_to_dict answer_200 full_state
     overflow_message))) \<le> 5000 \<and>
   RECENT_IDS (final (on_message example_cfg example_to_dict answer_200 full_state
     overflow_message)) = {||} \<and>
   take 2 (trace (on_message example_cfg example_to_dict answer_200 full_state overflow_message)) =
     [LedgerAdd (message_id overflow_message), LedgerClear]"
proof -
  have a: "user_id (author overflow_message) \<noteq> user_id (client_user example_cfg)"
    "channel_id (channel overflow_message) \<in> set SOURCE_CHANNEL_IDS"
    "message_id overflow_message = 5001"
    by (simp_all add: overflow_message_def example_message_def example_cfg_def
        SOURCE_CHANNEL_IDS_def)
  with full_state_card
    C2_ledger_bounded [of example_cfg example_to_dict "[]" full_state answer_200 overflow_message]
  show ?thesis by (simp add: fcard_fempty)
qed

subsection \<open>C3: which exceptions the forward lets through\<close>




subsection \<open>C4: the bot's own messages and unmonitored channels\<close>

text \<open>
  Claim C4. For every message event authored by the bot's own identity, and for every
  message event whose channel identifier is not in the list of monitored channels, the
  handler performs no HTTP call and leaves the dedup ledger unchanged. The handler
  returns at line 135 or 139: it has no effect at all.
\<close>

theorem C4_filtered_message_no_effect:
  "user_id (author m) = user_id (client_user cfg) \<or>
   channel_id (channel m) \<notin> set SOURCE_CHANNEL_IDS \<Longrightarrow>
   posts (trace (on_message cfg to_dict session_post s m)) = [] \<and>
   RECENT_IDS (final (on_message cfg to_dict session_post s m)) = RECENT_IDS s \<and>
   on_message cfg to_dict session_post s m = \<lparr>final = s, trace = [], raised = None\<rparr>"
proof -
  assume "user_id (author m) = user_id (client_user cfg) \<or>
    channel_id (channel m) \<notin> set SOURCE_CHANNEL_IDS"
  then have "on_message cfg to_dict session_post s m = \<lparr>final = s, trace = [], raised = None\<rparr>"
    by (intro on_message_skip) blast
  then show ?thesis by simp
qed

theorem C4_witness:
  "user_id (author self_message) = user_id (client_user example_cfg) \<and>
   channel_id (channel self_message) \<in> set SOURCE_CHANNEL_IDS \<and>
   posts (trace (on_message example_cfg example_to_dict answer_200 ready_state self_message)) = [] \<and>
   RECENT_IDS (final (on_message example_cfg example_to_dict answer_200 ready_state self_message))
     = RECENT_IDS ready_state \<and>
   user_id (author outside_message) \<noteq> user_id (client_user example_cfg) \<and>
   channel_id (channel outside_message) \<notin> set SOURCE_CHANNEL_IDS \<and>
   posts (trace (on_message example_cfg example_to_dict answer_200 ready_state outside_message)) = [] \<and>
   RECENT_IDS (final (on_message example_cfg example_to_dict answer_200 ready_state outside_message))
     = RECENT_IDS ready_state"
proof -
  have a: "user_id (author self_message) = user_id (client_user example_cfg)"
    and b: "channel_id (channel self_message) \<in> set SOURCE_CHANNEL_IDS"
    and c: "user_id (author outside_message) \<noteq> user_id (client_user example_cfg)"
    and d: "channel_id (channel outside_message) \<notin> set SOURCE_CHANNEL_IDS"
    by (simp_all add: self_message_def outside_message_def example_message_def example_cfg_def
        SOURCE_CHANNEL_IDS_def)
  from a b c d
    C4_filtered_message_no_effect [of self_message example_cfg example_to_dict answer_200 ready_state]
    C4_filtered_message_no_effect [of outside_message example_cfg example_to_dict answer_200 ready_state]
  show ?thesis by simp
qed

subsection \<open>C5: the identifier is in the ledger before the POST\<close>




subsection \<open>C6: attachments and embeds of the payload\<close>

text \<open>
  Claim C6. For every qualifying message, the payload built has one attachment object
  with the keys filename, url, contentType and size for each attachment of the message,
  in order, and an array of embeds whose length is the number of embeds that serialized
  without error: an embed that fails to serialize is dropped silently. The payload is the
  JSON body of every POST the handler issues.
\<close>

theorem C6_payload_attachments_embeds:
  "field (build_payload to_dict m) ''attachments'' =
     Some (JArr (map attachment_object (attachments m))) \<and>
   length (map attachment_object (attachments m)) = length (attachments m) \<and>
   (\<forall>i < length (attachments m).
      map attachment_object (attachments m) ! i =
        JObj [(''filename'', JStr (filename (attachments m ! i))),
              (''url'', JStr (url (attachments m ! i))),
              (''contentType'', (case content_type (attachments m ! i) of
                                   None \<Rightarrow> JNull | Some t \<Rightarrow> JStr t)),
              (''size'', JNum (size_bytes (attachments m ! i)))]) \<and>
   field (build_payload to_dict m) ''embeds'' = Some (JArr (embeds_loop to_dict (embeds m))) \<and>
   embeds_loop to_dict (embeds m) =
     map (\<lambda>e. the (to_dict e)) (filter (\<lambda>e. to_dict e \<noteq> None) (embeds m)) \<and>
   length (embeds_loop to_dict (embeds m)) =
     length (filter (\<lambda>e. to_dict e \<noteq> None) (embeds m)) \<and>
   (\<forall>req \<in> set (posts (trace (on_message cfg to_dict session_post s m))).
      req_json req = build_payload to_dict m)"
proof (intro conjI)
  show "\<forall>i < length (attachments m).
      map attachment_object (attachments m) ! i =
        JObj [(''filename'', JStr (filename (attachments m ! i))),
              (''url'', JStr (url (attachments m ! i))),
              (''contentType'', (case content_type (attachments m ! i) of
                                   None \<Rightarrow> JNull | Some t \<Rightarrow> JStr t)),
              (''size'', JNum (size_bytes (attachments m ! i)))]"
    by (simp add: attachment_object_def)
  show "embeds_loop to_dict (embeds m) =
     map (\<lambda>e. the (to_dict e)) (filter (\<lambda>e. to_dict e \<noteq> None) (embeds m))"
    by (rule embeds_loop_filter)
  then show "length (embeds_loop to_dict (embeds m)) =
     length (filter (\<lambda>e. to_dict e \<noteq> None) (embeds m))"
    by simp
  show "\<forall>req \<in> set (posts (trace (on_message cfg to_dict session_post s m))).
      req_json req = build_payload to_dict m"
    by (auto dest: json_on_message simp add: the_request_def)
qed (simp_all add: field_build_payload)

theorem C6_witness:
  "field (build_payload example_to_dict example_message) ''attachments'' =
     Some (JArr [JObj [(''filename'', JStr ''a.png''), (''url'', JStr ''https://cdn/a.png''),
                       (''contentType'', JStr ''image/png''), (''size'', JNum 3)],
                 JObj [(''filename'', JStr ''b.bin''), (''url'', JStr ''https://cdn/b.bin''),
                       (''contentType'', JNull), (''size'', JNum 40)]]) \<and>
   field (build_payload example_to_dict example_message) ''embeds'' =
     Some (JArr [JObj [(''title'', JNum 0)], JObj [(''title'', JNum 2)]]) \<and>
   length (filter (\<lambda>e. example_to_dict e \<noteq> None) (embeds example_message)) = 2 \<and>
   the_request example_cfg (build_payload example_to_dict example_message) \<in>
     set (posts (trace (on_message example_cfg example_to_dict answer_200 ready_state
       example_message))) \<and>
   req_json (the_request example_cfg (build_payload example_to_dict example_message)) =
     build_payload example_to_dict example_message"
proof -
  have a: "map attachment_object (attachments example_message) =
     [JObj [(''filename'', JStr ''a.png''), (''url'', JStr ''https://cdn/a.png''),
            (''contentType'', JStr ''image/png''), (''size'', JNum 3)],
      JObj [(''filename'', JStr ''b.bin''), (''url'', JStr ''https://cdn/b.bin''),
            (''contentType'', JNull), (''size'', JNum 40)]]"
    by (simp add: example_message_def attachment_object_def)
  have b: "map (\<lambda>e. the (example_to_dict e))
       (filter (\<lambda>e. example_to_dict e \<noteq> None) (embeds example_message)) =
     [JObj [(''title'', JNum 0)], JObj [(''title'', JNum 2)]]"
    "length (filter (\<lambda>e. example_to_dict e \<noteq> None) (embeds example_message)) = 2"
    by (simp_all add: example_message_def example_to_dict_def)
  from a b example_posts [of answer_200]
    C6_payload_attachments_embeds [of example_to_dict example_message example_cfg answer_200
      ready_state]
  show ?thesis by simp
qed

subsection \<open>C7: headers and timeout of every POST\<close>

text \<open>
  Claim C7. Every HTTP POST, in every run of the process, goes to the ingestion URL,
  carries the header Content-Type: application/json and a total timeout of 10 seconds,
  and carries the header x-ingest-token if and only if the configured shared secret,
  trimmed of whitespace, is not empty; the header then holds the trimmed secret. The
  trimmed secret is not empty exactly when the variable is set and has a character that
  is not whitespace.
\<close>

theorem C7_post_headers:
  "(\<forall>req \<in> set (posts (trace (run cfg to_dict s evs))).
      req_url req = API_URL \<and>
      map_of (req_headers req) ''Content-Type'' = Some ''application/json'' \<and>
      req_timeout_total req = 10 \<and>
      (map_of (req_headers req) ''x-ingest-token'' \<noteq> None \<longleftrightarrow>
         strip (case getenv_INGEST_TOKEN cfg of None \<Rightarrow> '''' | Some v \<Rightarrow> v) \<noteq> '''') \<and>
      (strip (case getenv_INGEST_TOKEN cfg of None \<Rightarrow> '''' | Some v \<Rightarrow> v) \<noteq> '''' \<longrightarrow>
         map_of (req_headers req) ''x-ingest-token'' =
           Some (strip (case getenv_INGEST_TOKEN cfg of None \<Rightarrow> '''' | Some v \<Rightarrow> v)))) \<and>
   (strip (case getenv_INGEST_TOKEN cfg of None \<Rightarrow> '''' | Some v \<Rightarrow> v) \<noteq> '''' \<longleftrightarrow>
      (\<exists>v. getenv_INGEST_TOKEN cfg = Some v \<and> (\<exists>c \<in> set v. \<not> isspace c)))"
proof (intro conjI ballI)
  fix req
  assume "req \<in> set (posts (trace (run cfg to_dict s evs)))"
  then obtain m where r: "req = the_request cfg (build_payload to_dict m)"
    using posts_run by blast
  show "req_url req = API_URL"
    and "map_of (req_headers req) ''Content-Type'' = Some ''application/json''"
    and "req_timeout_total req = 10"
    and "map_of (req_headers req) ''x-ingest-token'' \<noteq> None \<longleftrightarrow>
         strip (case getenv_INGEST_TOKEN cfg of None \<Rightarrow> '''' | Some v \<Rightarrow> v) \<noteq> ''''"
    and "strip (case getenv_INGEST_TOKEN cfg of None \<Rightarrow> '''' | Some v \<Rightarrow> v) \<noteq> '''' \<longrightarrow>
         map_of (req_headers req) ''x-ingest-token'' =
           Some (strip (case getenv_INGEST_TOKEN cfg of None \<Rightarrow> '''' | Some v \<Rightarrow> v))"
    by (simp_all add: r the_request_def INGEST_TOKEN_strip)
next
  show "strip (case getenv_INGEST_TOKEN cfg of None \<Rightarrow> '''' | Some v \<Rightarrow> v) \<noteq> '''' \<longleftrightarrow>
      (\<exists>v. getenv_INGEST_TOKEN cfg = Some v \<and> (\<exists>c \<in> set v. \<not> isspace c))"
    by (cases "getenv_INGEST_TOKEN cfg") (simp_all add: strip_empty_iff)
qed

lemma example_run_posts:
  "posts (trace (run cfg example_to_dict ready_state [Message example_message answer_500])) =
     posts (trace (on_message cfg example_to_dict answer_500 ready_state example_message))"
  by (simp add: Let_def)

lemma blank_posts:
  "posts (trace (on_message blank_cfg example_to_dict session_post ready_state example_message)) =
     [the_request blank_cfg (build_payload example_to_dict example_message)]"
proof -
  have "user_id (author example_message) \<noteq> user_id (client_user blank_cfg)"
    by (simp add: example_message_def blank_cfg_def)
  with example_forwards(2) example_ledgers show ?thesis
    by (simp add: on_message_forward posts_post_to_website)
qed

theorem C7_witness:
  "the_request example_cfg (build_payload example_to_dict example_message) \<in>
     set (posts (trace (run example_cfg example_to_dict ready_state
       [Message example_message answer_500]))) \<and>
   getenv_INGEST_TOKEN example_cfg = Some '' s3cret '' \<and>
   req_headers (the_request example_cfg (build_payload example_to_dict example_message)) =
     [(''Content-Type'', ''application/json''), (''x-ingest-token'', ''s3cret'')] \<and>
   map_of (req_headers (the_request example_cfg (build_payload example_to_dict example_message)))
     ''x-ingest-token'' = Some ''s3cret'' \<and>
   req_timeout_total (the_request example_cfg (build_payload example_to_dict example_message)) = 10 \<and>
   the_request blank_cfg (build_payload example_to_dict example_message) \<in>
     set (posts (trace (run blank_cfg example_to_dict ready_state
       [Message example_message answer_500]))) \<and>
   getenv_INGEST_TOKEN blank_cfg = Some ''  '' \<and>
   map_of (req_headers (the_request blank_cfg (build_payload example_to_dict example_message)))
     ''x-ingest-token'' = None \<and>
   map_of (req_headers (the_request blank_cfg (build_payload example_to_dict example_message)))
     ''Content-Type'' = Some ''application/json''"
proof -
  have a: "the_request example_cfg (build_payload example_to_dict example_message) \<in>
     set (posts (trace (run example_cfg example_to_dict ready_state
       [Message example_message answer_500])))"
    unfolding example_run_posts example_posts by simp
  have b: "the_request blank_cfg (build_payload example_to_dict example_message) \<in>
     set (posts (trace (run blank_cfg example_to_dict ready_state
       [Message example_message answer_500])))"
    unfolding example_run_posts blank_posts by simp
  have c: "getenv_INGEST_TOKEN example_cfg = Some '' s3cret ''"
    "getenv_INGEST_TOKEN blank_cfg = Some ''  ''"
    by (simp_all add: example_cfg_def blank_cfg_def)
  have d: "req_headers (the_request example_cfg (build_payload example_to_dict example_message)) =
     [(''Content-Type'', ''application/json''), (''x-ingest-token'', ''s3cret'')]"
    by (simp add: the_request_def example_tokens)
  have e: "strip (case getenv_INGEST_TOKEN example_cfg of None \<Rightarrow> '''' | Some v \<Rightarrow> v) = ''s3cret''"
    "strip (case getenv_INGEST_TOKEN blank_cfg of None \<Rightarrow> '''' | Some v \<Rightarrow> v) = ''''"
    by (simp_all add: c strip_secret)
  from C7_post_headers [of example_cfg example_to_dict ready_state
      "[Message example_message answer_500]"] a e(1)
  have 1: "map_of (req_headers (the_request example_cfg
      (build_payload example_to_dict example_message))) ''x-ingest-token'' = Some ''s3cret''"
    and 2: "req_timeout_total (the_request example_cfg
      (build_payload example_to_dict example_message)) = 10"
    by auto
  from C7_post_headers [of blank_cfg example_to_dict ready_state
      "[Message example_message answer_500]"] b e(2)
  have 3: "map_of (req_headers (the_request blank_cfg
      (build_payload example_to_dict example_message))) ''x-ingest-token'' = None"
    and 4: "map_of (req_headers (the_request blank_cfg
      (build_payload example_to_dict example_message))) ''Content-Type'' = Some ''application/json''"
    by auto
  from a b c d 1 2 3 4 show ?thesis by blast
qed

subsection \<open>C8: what is logged for a response\<close>




subsection \<open>C9: the identifier is recorded even when nothing is sent\<close>

text \<open>
  Claim C9. Even when the shared session is absent or closed, so that no POST is attempted,
  the identifier of a qualifying message is still inserted into the dedup ledger: the
  insert and the possible clear come before the test of the session. A later redelivery
  of that message within the same ledger epoch is therefore suppressed, although the
  message was never sent, and also when a session has been opened in between.
\<close>

theorem C9_unsent_message_recorded:
  "user_id (author m) \<noteq> user_id (client_user cfg) \<and>
   channel_id (channel m) \<in> set SOURCE_CHANNEL_IDS \<and>
   message_id m |\<notin>| RECENT_IDS s \<and>
   (http_session s = None \<or> (\<exists>session. http_session s = Some session \<and> closed session)) \<Longrightarrow>
   posts (trace (on_message cfg to_dict session_post s m)) = [] \<and>
   hd (trace (on_message cfg to_dict session_post s m)) = LedgerAdd (message_id m) \<and>
   RECENT_IDS (final (on_message cfg to_dict session_post s m)) =
     (if fcard (finsert (message_id m) (RECENT_IDS s)) > 5000 then {||}
      else finsert (message_id m) (RECENT_IDS s)) \<and>
   (LedgerClear \<notin> set (trace (run cfg to_dict s (Message m session_post # evs))) \<and>
    message_id m' = message_id m \<longrightarrow>
      on_message cfg to_dict session_post' (final (run cfg to_dict s (Message m session_post # evs))) m' =
        \<lparr>final = final (run cfg to_dict s (Message m session_post # evs)), trace = [],
         raised = None\<rparr>)"
proof -
  assume a: "user_id (author m) \<noteq> user_id (client_user cfg) \<and>
   channel_id (channel m) \<in> set SOURCE_CHANNEL_IDS \<and>
   message_id m |\<notin>| RECENT_IDS s \<and>
   (http_session s = None \<or> (\<exists>session. http_session s = Some session \<and> closed session))"
  then have n: "\<not> sending s"
    by (auto simp add: sending_def)
  from a n have 1: "posts (trace (on_message cfg to_dict session_post s m)) = []"
    and 2: "hd (trace (on_message cfg to_dict session_post s m)) = LedgerAdd (message_id m)"
    and 3: "RECENT_IDS (final (on_message cfg to_dict session_post s m)) =
     (if fcard (finsert (message_id m) (RECENT_IDS s)) > 5000 then {||}
      else finsert (message_id m) (RECENT_IDS s))"
    by (simp_all add: on_message_forward)
  have 4: "on_message cfg to_dict session_post' (final (run cfg to_dict s (Message m session_post # evs))) m' =
        \<lparr>final = final (run cfg to_dict s (Message m session_post # evs)), trace = [],
         raised = None\<rparr>"
    if c: "LedgerClear \<notin> set (trace (run cfg to_dict s (Message m session_post # evs))) \<and>
      message_id m' = message_id m"
  proof -
    from a have "LedgerAdd (message_id m) \<in> set (trace (run cfg to_dict s (Message m session_post # evs)))"
      by (simp add: Let_def on_message_forward)
    with c run_keeps [of cfg to_dict s "Message m session_post # evs" "message_id m"]
    have "message_id m' |\<in>| RECENT_IDS (final (run cfg to_dict s (Message m session_post # evs)))"
      by simp
    then show ?thesis
      by (simp add: on_message_skip)
  qed
  from 1 2 3 4 show ?thesis by blast
qed

text \<open>The example message arrives before the session exists; then the session is opened.\<close>

lemma example_unsent:
  "trace (run example_cfg example_to_dict initial [Message example_message answer_200, Ready]) =
     [LedgerAdd 2,
      Print (Forwarding_message 1376084801974567033 ''alice'' (Some ''pick: Lakers -4'')),
      Print (Logged_in ''bot'' 7), Print (Forwarding_ON API_URL)]"
  using example_forwards example_ledgers
  by (simp add: Let_def on_message_forward on_ready_def)
     (simp add: example_message_def example_cfg_def initial_def)

theorem C9_witness:
  "user_id (author example_message) \<noteq> user_id (client_user example_cfg) \<and>
   channel_id (channel example_message) \<in> set SOURCE_CHANNEL_IDS \<and>
   message_id example_message |\<notin>| RECENT_IDS initial \<and>
   http_session initial = None \<and>
   LedgerClear \<notin> set (trace (run example_cfg example_to_dict initial
     (Message example_message answer_200 # [Ready]))) \<and>
   posts (trace (on_message example_cfg example_to_dict answer_200 initial example_message)) = [] \<and>
   hd (trace (on_message example_cfg example_to_dict answer_200 initial example_message)) =
     LedgerAdd (message_id example_message) \<and>
   on_message example_cfg example_to_dict answer_500
     (final (run example_cfg example_to_dict initial (Message example_message answer_200 # [Ready])))
     example_message =
     \<lparr>final = final (run example_cfg example_to_dict initial
        (Message example_message answer_200 # [Ready])),
      trace = [], raised = None\<rparr>"
proof -
  have c: "LedgerClear \<notin> set (trace (run example_cfg example_to_dict initial
     (Message example_message answer_200 # [Ready])))"
    unfolding example_unsent by simp
  have d: "http_session initial = None"
    by (simp add: initial_def)
  from example_forwards example_ledgers(3) c d
    C9_unsent_message_recorded [where m = example_message and cfg = example_cfg and s = initial
      and to_dict = example_to_dict and session_post = answer_200 and evs = "[Ready]"
      and m' = example_message and session_post' = answer_500]
  show ?thesis by blast
qed

subsection \<open>C10: the content of the payload is a string\<close>

text \<open>
  Claim C10. The content field of the payload is always a string and never null: it is the
  text content of the message, and the empty string when the text content is absent or
  empty. This holds for the payload built and for the JSON body of every POST of the
  handler.
\<close>

theorem C10_content_is_string:
  "field (build_payload to_dict m) ''content'' =
     Some (JStr (case content m of None \<Rightarrow> '''' | Some c \<Rightarrow> c)) \<and>
   field (build_payload to_dict m) ''content'' \<noteq> Some JNull \<and>
   (content m = None \<or> content m = Some '''' \<longrightarrow>
      field (build_payload to_dict m) ''content'' = Some (JStr '''')) \<and>
   (\<forall>req \<in> set (posts (trace (on_message cfg to_dict session_post s m))).
      field (req_json req) ''content'' =
        Some (JStr (case content m of None \<Rightarrow> '''' | Some c \<Rightarrow> c)))"
proof (intro conjI)
  show "\<forall>req \<in> set (posts (trace (on_message cfg to_dict session_post s m))).
      field (req_json req) ''content'' =
        Some (JStr (case content m of None \<Rightarrow> '''' | Some c \<Rightarrow> c))"
    by (auto dest: json_on_message simp add: the_request_def field_build_payload)
qed (auto simp add: field_build_payload)

lemma absent_content_posts:
  "posts (trace (on_message example_cfg example_to_dict answer_200 ready_state
     absent_content_message)) =
     [the_request example_cfg (build_payload example_to_dict absent_content_message)]"
proof -
  have "user_id (author absent_content_message) \<noteq> user_id (client_user example_cfg)"
    and "channel_id (channel absent_content_message) \<in> set SOURCE_CHANNEL_IDS"
    and "message_id absent_content_message |\<notin>| RECENT_IDS ready_state"
    by (simp_all add: absent_content_message_def example_message_def example_cfg_def
        SOURCE_CHANNEL_IDS_def ready_state_def)
  with example_ledgers(5) show ?thesis
    by (simp add: on_message_forward posts_post_to_website)
qed

theorem C10_witness:
  "content absent_content_message = None \<and>
   field (build_payload example_to_dict absent_content_message) ''content'' = Some (JStr '''') \<and>
   the_request example_cfg (build_payload example_to_dict absent_content_message) \<in>
     set (posts (trace (on_message example_cfg example_to_dict answer_200 ready_state
       absent_content_message))) \<and>
   field (req_json (the_request example_cfg (build_payload example_to_dict absent_content_message)))
     ''content'' = Some (JStr '''')"
proof -
  have a: "content absent_content_message = None"
    by (simp add: absent_content_message_def)
  from a absent_content_posts
    C10_content_is_string [of example_to_dict absent_content_message example_cfg answer_200
      ready_state]
  show ?thesis by simp
qed

end
